theory Spec2Isabelle
  imports Main
begin

section \<open>The store\<close>

text \<open>
  Modelled from the spec: the tables of \<^verbatim>\<open>models\<close> (the module is not among the sources),
  from the data model of the spec (section 3) and the columns the handlers read. The
  handlers of \<^verbatim>\<open>app/main.py\<close> work on a relational store reached through a session
  \<^verbatim>\<open>db\<close>. The store is a record of tables, each table a list of rows in insertion order;
  \<^verbatim>\<open>query(...).filter(...).first()\<close> is \<open>find\<close> on that list. Python integers are
  \<open>int\<close>, strings are \<open>string\<close>. A column \<^verbatim>\<open>models.T.c\<close> is the field \<open>T_c\<close>. A price is
  only ever copied, and is kept as a whole number of the smallest unit.
\<close>

record User =
  User_id :: int
  User_email :: string
  User_password :: string
  User_role :: string

record Category =
  Category_id :: int
  Category_name :: string

record Product =
  Product_id :: int
  Product_name :: string
  Product_price :: int
  Product_stock :: int
  Product_category_id :: int
  Product_seller_id :: "int option"

record Cart =
  Cart_id :: int
  Cart_user_id :: int

record CartItem =
  CartItem_id :: int
  CartItem_cart_id :: int
  CartItem_product_id :: int
  CartItem_quantity :: int

record Order =
  Order_id :: int
  Order_user_id :: int

record OrderItem =
  OrderItem_id :: int
  OrderItem_order_id :: int
  OrderItem_product_id :: int
  OrderItem_quantity :: int
  OrderItem_price :: int

record db =
  users :: "User list"
  categories :: "Category list"
  products :: "Product list"
  carts :: "Cart list"
  cart_items :: "CartItem list"
  orders :: "Order list"
  order_items :: "OrderItem list"

text \<open>
  What a handler can end with besides a response: \<^verbatim>\<open>HTTPException(status_code, detail)\<close>,
  a \<^verbatim>\<open>ValueError\<close> raised by the persistence layer, or the \<^verbatim>\<open>AttributeError\<close> of
  reading a field of \<^verbatim>\<open>None\<close>. A handler returns the store it leaves behind together
  with its outcome: an exception raised after a write does not undo the write, the
  session is only closed (\<^verbatim>\<open>get_db\<close>).
\<close>

datatype error =
  HTTPException nat string
| ValueError string
| AttributeError

section \<open>Request and response bodies\<close>

text \<open>
  Modelled from the spec: the bodies of \<^verbatim>\<open>schemas\<close> (the module is not among the sources),
  with the fields the handlers and the spec's operations name.
\<close>

record UserCreate =
  UserCreate_email :: string
  UserCreate_password :: string

record OAuth2PasswordRequestForm =
  username :: string
  password :: string

text \<open>
  The handlers read only \<^verbatim>\<open>update.role\<close> of a \<^verbatim>\<open>schemas.UserUpdate\<close>; the field may be
  absent (\<^verbatim>\<open>None\<close>).
\<close>

record UserUpdate =
  UserUpdate_role :: "string option"

record ProductBase =
  ProductBase_name :: string
  ProductBase_price :: int
  ProductBase_stock :: int
  ProductBase_category_id :: int

record CartItemBase =
  CartItemBase_product_id :: int
  CartItemBase_quantity :: int

text \<open>A value of the token's payload dictionary.\<close>

datatype jval = JInt int | JStr string

type_synonym payload = "string \<rightharpoonup> jval"

record Token =
  access_token :: payload
  token_type :: string

section \<open>Strings\<close>

text \<open>
  \<^verbatim>\<open>str.lower()\<close> on the ASCII letters (the messages matched below are ASCII), and
  the substring test \<^verbatim>\<open>sub in s\<close>.
\<close>

definition lower_char :: "char \<Rightarrow> char" where
  "lower_char c =
     (let n = (of_char c :: nat) in if 65 \<le> n \<and> n \<le> 90 then char_of (n + 32) else c)"

definition lower :: "string \<Rightarrow> string" where
  "lower s = map lower_char s"

fun str_in :: "string \<Rightarrow> string \<Rightarrow> bool" where
  "str_in sub [] = (sub = [])"
| "str_in sub (c # cs) = (take (length sub) (c # cs) = sub \<or> str_in sub cs)"

section \<open>The persistence layer\<close>

text \<open>
  Modelled from the spec: the key of a created row. The store's key generation is not
  among the sources; a new row gets one more than the largest key of its table.
\<close>

definition next_id :: "int list \<Rightarrow> int" where
  "next_id ids = fold max ids 0 + 1"

text \<open>
  Modelled from the spec: \<^verbatim>\<open>crud.get_user_by_email\<close> and \<^verbatim>\<open>crud.get_user\<close> (module
  \<^verbatim>\<open>crud\<close> is not among the sources). The user row with that email, or with that id,
  if there is one.
\<close>

definition crud_get_user_by_email :: "db \<Rightarrow> string \<Rightarrow> User option" where
  "crud_get_user_by_email d e = find (\<lambda>u. User_email u = e) (users d)"

definition crud_get_user :: "db \<Rightarrow> int \<Rightarrow> User option" where
  "crud_get_user d uid = find (\<lambda>u. User_id u = uid) (users d)"

text \<open>
  Modelled from the spec: \<^verbatim>\<open>crud.Signup\<close>, which "stores hashed password; returns
  created user". The hashing call is outside the specification and is the parameter
  \<open>hash_password\<close>. The spec names no role for a new user; the least privileged one,
  customer, is taken.
\<close>

definition crud_Signup :: "(string \<Rightarrow> string) \<Rightarrow> db \<Rightarrow> UserCreate \<Rightarrow> db \<times> User" where
  "crud_Signup hash_password d user =
     (let u = \<lparr>User_id = next_id (map User_id (users d)),
               User_email = UserCreate_email user,
               User_password = hash_password (UserCreate_password user),
               User_role = ''customer''\<rparr>
      in (d\<lparr>users := users d @ [u]\<rparr>, u))"

text \<open>
  Modelled from the spec: \<^verbatim>\<open>crud.update_user\<close>, the mutation of a user "by self-update or
  admin role-change". The row of \<open>user\<close> takes the role of the update when the update
  carries one; the updated row is returned.
\<close>

definition apply_update :: "UserUpdate \<Rightarrow> User \<Rightarrow> User" where
  "apply_update update u =
     (case UserUpdate_role update of None \<Rightarrow> u | Some r \<Rightarrow> u\<lparr>User_role := r\<rparr>)"

definition crud_update_user :: "db \<Rightarrow> User \<Rightarrow> UserUpdate \<Rightarrow> db \<times> User" where
  "crud_update_user d user update =
     (d\<lparr>users := map (\<lambda>u. if User_id u = User_id user then apply_update update u else u)
                      (users d)\<rparr>,
      apply_update update user)"

text \<open>
  Modelled from the spec: \<^verbatim>\<open>auth.create_access_token\<close> (module \<^verbatim>\<open>auth\<close> is not among the
  sources). The token payload is "user id, email, role, expiry": the data handed in,
  with the expiry \<^verbatim>\<open>exp\<close> set to the time of issue plus \<^verbatim>\<open>expires_delta\<close>. Times are in
  seconds; the clock is the parameter \<open>now\<close>. Signing is outside the specification: the
  token is its payload.
\<close>

definition timedelta_minutes :: "int \<Rightarrow> int" where
  "timedelta_minutes m = m * 60"

definition create_access_token :: "int \<Rightarrow> payload \<Rightarrow> int \<Rightarrow> payload" where
  "create_access_token now data expires_delta = data(''exp'' \<mapsto> JInt (now + expires_delta))"

text \<open>
  Modelled from the spec: \<^verbatim>\<open>crud.get_product\<close> and \<^verbatim>\<open>crud.get_products_by_category\<close>, the
  "read-only listing of categories/products": the product row with that id, and the
  product rows of a category.
\<close>

definition crud_get_product :: "db \<Rightarrow> int \<Rightarrow> Product option" where
  "crud_get_product d pid = find (\<lambda>p. Product_id p = pid) (products d)"

definition crud_get_products_by_category :: "db \<Rightarrow> int \<Rightarrow> Product list" where
  "crud_get_products_by_category d cid = filter (\<lambda>p. Product_category_id p = cid) (products d)"

text \<open>
  Modelled from the spec: \<^verbatim>\<open>crud.get_cart\<close> and \<^verbatim>\<open>crud.create_cart\<close>, the two halves of
  \<^verbatim>\<open>get_or_create_cart(user_id)\<close>, which "returns existing cart or creates an empty one".
  A created cart is a new row with a fresh key; the items of a cart are the rows of
  the item table that carry its key.
\<close>

definition crud_get_cart :: "db \<Rightarrow> int \<Rightarrow> Cart option" where
  "crud_get_cart d uid = find (\<lambda>c. Cart_user_id c = uid) (carts d)"

definition crud_create_cart :: "db \<Rightarrow> int \<Rightarrow> db \<times> Cart" where
  "crud_create_cart d uid =
     (let c = \<lparr>Cart_id = next_id (map Cart_id (carts d)), Cart_user_id = uid\<rparr>
      in (d\<lparr>carts := carts d @ [c]\<rparr>, c))"

definition items_of :: "db \<Rightarrow> int \<Rightarrow> CartItem list" where
  "items_of d cid = filter (\<lambda>i. CartItem_cart_id i = cid) (cart_items d)"

definition set_quantity :: "int \<Rightarrow> int \<Rightarrow> CartItem list \<Rightarrow> CartItem list" where
  "set_quantity iid q xs = map (\<lambda>i. if CartItem_id i = iid then i\<lparr>CartItem_quantity := q\<rparr> else i) xs"

text \<open>
  Modelled from the spec: \<^verbatim>\<open>crud.add_cart_item\<close>, the spec's
  \<^verbatim>\<open>add_item(cart_id, product_id, quantity)\<close>: it "fails with NotFound if product missing;
  fails with InvalidInput if quantity <= 0; fails with InsufficientStock if quantity
  exceeds available stock; if item for that product already exists in cart, increments
  quantity (re-validating against stock) rather than duplicating the row". The failures
  are \<^verbatim>\<open>ValueError\<close>s, which is what the handler catches; the handler tells them apart by
  the words "not found" and "insufficient" in the message, so the messages carry these
  words.
\<close>

definition crud_add_cart_item :: "db \<Rightarrow> int \<Rightarrow> CartItemBase \<Rightarrow> db \<times> (error + CartItem)" where
  "crud_add_cart_item d cart_id item =
     (let pid = CartItemBase_product_id item; q = CartItemBase_quantity item in
      case crud_get_product d pid of
        None \<Rightarrow> (d, Inl (ValueError ''Product not found''))
      | Some p \<Rightarrow>
          if q \<le> 0 then (d, Inl (ValueError ''Quantity must be greater than zero''))
          else if q > Product_stock p then (d, Inl (ValueError ''Insufficient stock''))
          else
            (case find (\<lambda>i. CartItem_cart_id i = cart_id \<and> CartItem_product_id i = pid)
                    (cart_items d) of
               Some ex \<Rightarrow>
                 let q' = CartItem_quantity ex + q in
                 if q' > Product_stock p then (d, Inl (ValueError ''Insufficient stock''))
                 else (d\<lparr>cart_items := set_quantity (CartItem_id ex) q' (cart_items d)\<rparr>,
                       Inr (ex\<lparr>CartItem_quantity := q'\<rparr>))
             | None \<Rightarrow>
                 let n = \<lparr>CartItem_id = next_id (map CartItem_id (cart_items d)),
                          CartItem_cart_id = cart_id, CartItem_product_id = pid,
                          CartItem_quantity = q\<rparr>
                 in (d\<lparr>cart_items := cart_items d @ [n]\<rparr>, Inr n)))"

text \<open>
  Modelled from the spec: \<^verbatim>\<open>crud.update_cart_item\<close>, the spec's
  \<^verbatim>\<open>update_item_quantity(cart_item_id, quantity)\<close>: it "fails with NotFound if item
  missing; re-validates quantity against current stock". A missing item is the result
  \<^verbatim>\<open>None\<close>, which is what the handler tests; a quantity above the stock is a
  \<^verbatim>\<open>ValueError\<close>. Otherwise the new quantity is written and the updated row returned.
  The handlers never commit, so a write of the persistence layer is committed there.
\<close>

definition crud_update_cart_item :: "db \<Rightarrow> int \<Rightarrow> int \<Rightarrow> db \<times> (error + CartItem option)" where
  "crud_update_cart_item d cart_item_id quantity =
     (case find (\<lambda>i. CartItem_id i = cart_item_id) (cart_items d) of
        None \<Rightarrow> (d, Inr None)
      | Some item \<Rightarrow>
          (case crud_get_product d (CartItem_product_id item) of
             None \<Rightarrow> (d, Inl (ValueError ''Product not found''))
           | Some p \<Rightarrow>
               if quantity > Product_stock p then (d, Inl (ValueError ''Insufficient stock''))
               else (d\<lparr>cart_items := set_quantity cart_item_id quantity (cart_items d)\<rparr>,
                     Inr (Some (item\<lparr>CartItem_quantity := quantity\<rparr>)))))"

text \<open>
  Modelled from the spec: \<^verbatim>\<open>crud.remove_cart_item\<close>, the spec's
  \<^verbatim>\<open>remove_item(cart_item_id)\<close>: deletion that "fails with NotFound if already absent".
  The result is the deleted row, or \<^verbatim>\<open>None\<close> when there was none.
\<close>

definition crud_remove_cart_item :: "db \<Rightarrow> int \<Rightarrow> db \<times> CartItem option" where
  "crud_remove_cart_item d cart_item_id =
     (case find (\<lambda>i. CartItem_id i = cart_item_id) (cart_items d) of
        None \<Rightarrow> (d, None)
      | Some item \<Rightarrow>
          (d\<lparr>cart_items := filter (\<lambda>i. CartItem_id i \<noteq> cart_item_id) (cart_items d)\<rparr>,
           Some item))"

text \<open>
  Modelled from the spec: \<^verbatim>\<open>crud.create_order_from_cart_for_user\<close>, section 4.4 of the
  spec. Step 1: no cart for the user is NotFound. Step 2: a cart with zero items is
  EmptyCart. Step 3: every cart item is checked against the stock of its product, the
  failure "naming the product". Step 4: the order and one line per cart item with the
  unit price of the moment are created, each product's stock goes down by the
  purchased quantity, and the items of the cart are deleted. Step 5: the order is
  returned with its lines. The failures are \<^verbatim>\<open>ValueError\<close>s; the handler tells them apart
  by the words "not found" and "empty" in the message.
\<close>

fun check_stock :: "db \<Rightarrow> CartItem list \<Rightarrow> error + (CartItem \<times> Product) list" where
  "check_stock d [] = Inr []"
| "check_stock d (i # rest) =
     (case crud_get_product d (CartItem_product_id i) of
        None \<Rightarrow> Inl (ValueError ''Product not found'')
      | Some p \<Rightarrow>
          if Product_stock p < CartItem_quantity i
          then Inl (ValueError (''Insufficient stock for product '' @ Product_name p))
          else (case check_stock d rest of Inl e \<Rightarrow> Inl e | Inr ps \<Rightarrow> Inr ((i, p) # ps)))"

definition decrement_stock :: "CartItem \<Rightarrow> Product list \<Rightarrow> Product list" where
  "decrement_stock i ps =
     map (\<lambda>p. if Product_id p = CartItem_product_id i
               then p\<lparr>Product_stock := Product_stock p - CartItem_quantity i\<rparr> else p) ps"

fun order_lines :: "int \<Rightarrow> int \<Rightarrow> (CartItem \<times> Product) list \<Rightarrow> OrderItem list" where
  "order_lines oid k [] = []"
| "order_lines oid k ((i, p) # rest) =
     \<lparr>OrderItem_id = k, OrderItem_order_id = oid, OrderItem_product_id = Product_id p,
      OrderItem_quantity = CartItem_quantity i, OrderItem_price = Product_price p\<rparr>
     # order_lines oid (k + 1) rest"

definition crud_create_order_from_cart_for_user ::
  "db \<Rightarrow> int \<Rightarrow> db \<times> (error + Order \<times> OrderItem list)"
where
  "crud_create_order_from_cart_for_user d user_id =
     (case crud_get_cart d user_id of
        None \<Rightarrow> (d, Inl (ValueError ''Cart not found''))
      | Some cart \<Rightarrow>
          let its = items_of d (Cart_id cart) in
          if its = [] then (d, Inl (ValueError ''Cart is empty''))
          else
            (case check_stock d its of
               Inl e \<Rightarrow> (d, Inl e)
             | Inr ps \<Rightarrow>
                 let order = \<lparr>Order_id = next_id (map Order_id (orders d)),
                              Order_user_id = user_id\<rparr>;
                     ls = order_lines (Order_id order)
                            (next_id (map OrderItem_id (order_items d))) ps
                 in (d\<lparr>orders := orders d @ [order],
                        order_items := order_items d @ ls,
                        products := fold decrement_stock its (products d),
                        cart_items := filter (\<lambda>i. CartItem_cart_id i \<noteq> Cart_id cart)
                                        (cart_items d)\<rparr>,
                     Inr (order, ls))))"

text \<open>
  Modelled from the spec: \<^verbatim>\<open>crud.update_product\<close> and \<^verbatim>\<open>crud.delete_product\<close>, section 4.6
  of the spec: they "scope mutation to the product's owning seller_id; admin bypasses
  ownership check", and fail with one collapsed outcome "when the product does not
  exist OR the requester is neither owner nor admin". The failure is the result
  \<^verbatim>\<open>None\<close>, which is what the handlers test. \<^verbatim>\<open>update_product\<close> is given the seller to
  scope to, or \<^verbatim>\<open>None\<close> for no scoping; \<^verbatim>\<open>delete_product\<close> is given the requester's id
  and role.
\<close>

definition apply_product_update :: "ProductBase \<Rightarrow> Product \<Rightarrow> Product" where
  "apply_product_update update p =
     p\<lparr>Product_name := ProductBase_name update, Product_price := ProductBase_price update,
       Product_stock := ProductBase_stock update,
       Product_category_id := ProductBase_category_id update\<rparr>"

definition crud_update_product ::
  "db \<Rightarrow> int \<Rightarrow> ProductBase \<Rightarrow> int option \<Rightarrow> db \<times> Product option"
where
  "crud_update_product d product_id update seller_id =
     (case crud_get_product d product_id of
        None \<Rightarrow> (d, None)
      | Some p \<Rightarrow>
          if seller_id \<noteq> None \<and> Product_seller_id p \<noteq> seller_id then (d, None)
          else (d\<lparr>products := map (\<lambda>x. if Product_id x = product_id
                                          then apply_product_update update x else x)
                                   (products d)\<rparr>,
                Some (apply_product_update update p)))"

definition crud_delete_product :: "db \<Rightarrow> int \<Rightarrow> int \<Rightarrow> string \<Rightarrow> db \<times> Product option" where
  "crud_delete_product d product_id user_id user_role =
     (case crud_get_product d product_id of
        None \<Rightarrow> (d, None)
      | Some p \<Rightarrow>
          if user_role \<noteq> ''admin'' \<and> Product_seller_id p \<noteq> Some user_id then (d, None)
          else (d\<lparr>products := filter (\<lambda>x. Product_id x \<noteq> product_id) (products d)\<rparr>,
                Some p))"

section \<open>The handlers of app/main.py\<close>

text \<open>
  \<^verbatim>\<open>signup\<close> (lines 42-45). \<^verbatim>\<open>login\<close> (lines 49-63); \<^verbatim>\<open>crud.verify_password\<close> is the
  parameter \<open>verify_password\<close>, given the submitted and the stored password.
\<close>

definition signup :: "(string \<Rightarrow> string) \<Rightarrow> db \<Rightarrow> UserCreate \<Rightarrow> db \<times> (error + User)" where
  "signup hash_password d user =
     (if crud_get_user_by_email d (UserCreate_email user) \<noteq> None
      then (d, Inl (HTTPException 400 ''Email already registered''))
      else (case crud_Signup hash_password d user of (d', u) \<Rightarrow> (d', Inr u)))"

definition login ::
  "(string \<Rightarrow> string \<Rightarrow> bool) \<Rightarrow> int \<Rightarrow> db \<Rightarrow> OAuth2PasswordRequestForm \<Rightarrow> db \<times> (error + Token)"
where
  "login verify_password now d form_data =
     (case crud_get_user_by_email d (username form_data) of
        None \<Rightarrow> (d, Inl (HTTPException 401 ''Incorrect email or password''))
      | Some user \<Rightarrow>
          if \<not> verify_password (password form_data) (User_password user)
          then (d, Inl (HTTPException 401 ''Incorrect email or password''))
          else (d, Inr \<lparr>access_token =
                          create_access_token now
                            [''user_id'' \<mapsto> JInt (User_id user),
                             ''email'' \<mapsto> JStr (User_email user),
                             ''role'' \<mapsto> JStr (User_role user)]
                            (timedelta_minutes 60),
                        token_type = ''bearer''\<rparr>))"

text \<open>\<^verbatim>\<open>admin_update_user_role\<close> (lines 386-397).\<close>

definition admin_update_user_role ::
  "db \<Rightarrow> int \<Rightarrow> UserUpdate \<Rightarrow> User \<Rightarrow> db \<times> (error + User)"
where
  "admin_update_user_role d user_id update admin =
     (case crud_get_user d user_id of
        None \<Rightarrow> (d, Inl (HTTPException 404 ''User not found''))
      | Some db_user \<Rightarrow>
          if UserUpdate_role update \<notin> set [Some ''customer'', Some ''seller'', Some ''admin'']
          then (d, Inl (HTTPException 400 ''Invalid role''))
          else (case crud_update_user d db_user update of (d', u) \<Rightarrow> (d', Inr u)))"

text \<open>\<^verbatim>\<open>list_products_by_category\<close> (lines 82-86).\<close>

definition list_products_by_category :: "db \<Rightarrow> int \<Rightarrow> db \<times> (error + Product list)" where
  "list_products_by_category d category_id =
     (let products = crud_get_products_by_category d category_id in
      if products = [] then (d, Inl (HTTPException 404 ''No products found for this category''))
      else (d, Inr products))"

text \<open>\<^verbatim>\<open>get_cart\<close> (lines 188-192) and \<^verbatim>\<open>add_item_to_cart\<close> (lines 195-207).\<close>

definition get_cart :: "db \<Rightarrow> User \<Rightarrow> db \<times> (error + Cart)" where
  "get_cart d current_user =
     (case crud_get_cart d (User_id current_user) of
        None \<Rightarrow> (case crud_create_cart d (User_id current_user) of (d', cart) \<Rightarrow> (d', Inr cart))
      | Some cart \<Rightarrow> (d, Inr cart))"

definition add_item_to_cart :: "db \<Rightarrow> CartItemBase \<Rightarrow> User \<Rightarrow> db \<times> (error + CartItem)" where
  "add_item_to_cart d item current_user =
     (let (d1, cart) =
            (case crud_get_cart d (User_id current_user) of
               None \<Rightarrow> crud_create_cart d (User_id current_user)
             | Some cart \<Rightarrow> (d, cart))
      in case crud_add_cart_item d1 (Cart_id cart) item of
           (d2, Inr ci) \<Rightarrow> (d2, Inr ci)
         | (d2, Inl (ValueError e)) \<Rightarrow>
             let msg = lower e in
             if str_in ''not found'' msg then (d2, Inl (HTTPException 404 e))
             else if str_in ''insufficient'' msg then (d2, Inl (HTTPException 400 e))
             else (d2, Inl (HTTPException 400 e))
         | (d2, Inl other) \<Rightarrow> (d2, Inl other))"

text \<open>
  \<^verbatim>\<open>update_cart_item\<close> (lines 210-216): the persistence layer is called first, the
  owner is compared afterwards. \<^verbatim>\<open>item.cart\<close> is the cart row the item points to.
\<close>

definition update_cart_item :: "db \<Rightarrow> int \<Rightarrow> int \<Rightarrow> User \<Rightarrow> db \<times> (error + CartItem)" where
  "update_cart_item d cart_item_id quantity current_user =
     (case crud_update_cart_item d cart_item_id quantity of
        (d', Inl e) \<Rightarrow> (d', Inl e)
      | (d', Inr None) \<Rightarrow> (d', Inl (HTTPException 404 ''Cart item not found''))
      | (d', Inr (Some item)) \<Rightarrow>
          (case find (\<lambda>c. Cart_id c = CartItem_cart_id item) (carts d') of
             None \<Rightarrow> (d', Inl AttributeError)
           | Some cart \<Rightarrow>
               if Cart_user_id cart \<noteq> User_id current_user \<and> User_role current_user \<noteq> ''admin''
               then (d', Inl (HTTPException 403 ''Not allowed to modify this item''))
               else (d', Inr item)))"

text \<open>\<^verbatim>\<open>delete_cart_item\<close> (lines 219-234): the owner is compared before the deletion.\<close>

definition delete_cart_item :: "db \<Rightarrow> int \<Rightarrow> User \<Rightarrow> db \<times> (error + string)" where
  "delete_cart_item d cart_item_id current_user =
     (case find (\<lambda>i. CartItem_id i = cart_item_id) (cart_items d) of
        None \<Rightarrow> (d, Inl (HTTPException 404 ''Cart item not found''))
      | Some item \<Rightarrow>
          (case find (\<lambda>c. Cart_id c = CartItem_cart_id item) (carts d) of
             None \<Rightarrow> (d, Inl (HTTPException 404 ''Cart not found''))
           | Some cart \<Rightarrow>
               if Cart_user_id cart \<noteq> User_id current_user \<and> User_role current_user \<noteq> ''admin''
               then (d, Inl (HTTPException 403 ''Not allowed to delete this item''))
               else
                 (case crud_remove_cart_item d cart_item_id of
                    (d', None) \<Rightarrow> (d', Inl (HTTPException 404 ''Cart item not found''))
                  | (d', Some deleted) \<Rightarrow> (d', Inr ''Cart Item Deleted Successfully''))))"

text \<open>\<^verbatim>\<open>create_order_from_cart\<close> (lines 240-254).\<close>

definition create_order_from_cart :: "db \<Rightarrow> User \<Rightarrow> db \<times> (error + Order \<times> OrderItem list)" where
  "create_order_from_cart d current_user =
     (case crud_create_order_from_cart_for_user d (User_id current_user) of
        (d', Inr order) \<Rightarrow> (d', Inr order)
      | (d', Inl (ValueError e)) \<Rightarrow>
          let msg = lower e in
          if str_in ''not found'' msg then (d', Inl (HTTPException 404 e))
          else if str_in ''empty'' msg then (d', Inl (HTTPException 400 e))
          else (d', Inl (HTTPException 400 e))
      | (d', Inl other) \<Rightarrow> (d', Inl other))"

text \<open>
  \<^verbatim>\<open>seller_update_product\<close> (lines 327-343) and \<^verbatim>\<open>seller_delete_product\<close> (lines 349-361).
  The requester \<open>seller\<close> is the identity the role gate let through.
\<close>

definition seller_update_product ::
  "db \<Rightarrow> int \<Rightarrow> ProductBase \<Rightarrow> User \<Rightarrow> db \<times> (error + Product)"
where
  "seller_update_product d product_id product_update seller =
     (case crud_update_product d product_id product_update
             (if User_role seller = ''seller'' then Some (User_id seller) else None) of
        (d', None) \<Rightarrow> (d', Inl (HTTPException 404 ''Product not found or not authorized''))
      | (d', Some updated) \<Rightarrow> (d', Inr updated))"

definition seller_delete_product :: "db \<Rightarrow> int \<Rightarrow> User \<Rightarrow> db \<times> (error + string)" where
  "seller_delete_product d product_id seller =
     (case crud_delete_product d product_id (User_id seller) (User_role seller) of
        (d', None) \<Rightarrow> (d', Inl (HTTPException 404 ''Product not found or not authorized''))
      | (d', Some deleted) \<Rightarrow> (d', Inr ''Product deleted successfully''))"

section \<open>Roles\<close>

text \<open>The roles of the data model; the list that \<^verbatim>\<open>admin_update_user_role\<close> tests against.\<close>

definition roles :: "string set" where
  "roles = {''customer'', ''seller'', ''admin''}"

section \<open>Example data\<close>

text \<open>
  A small store: two customers, a seller and an admin; one product with five units in
  stock, sold by the seller; a second category without products; a cart of the first
  customer holding one unit of the product. The password check of the examples
  compares with a tagged copy of the password.
\<close>

definition alice :: User where
  "alice = \<lparr>User_id = 1, User_email = ''alice@example.org'', User_password = ''h:wonder'',
            User_role = ''customer''\<rparr>"

definition bob :: User where
  "bob = \<lparr>User_id = 2, User_email = ''bob@example.org'', User_password = ''h:builder'',
          User_role = ''customer''\<rparr>"

definition carol :: User where
  "carol = \<lparr>User_id = 3, User_email = ''carol@example.org'', User_password = ''h:shop'',
            User_role = ''seller''\<rparr>"

definition dave :: User where
  "dave = \<lparr>User_id = 4, User_email = ''dave@example.org'', User_password = ''h:root'',
           User_role = ''admin''\<rparr>"

definition atlas :: Product where
  "atlas = \<lparr>Product_id = 1, Product_name = ''Atlas'', Product_price = 1200, Product_stock = 5,
            Product_category_id = 1, Product_seller_id = Some 3\<rparr>"

definition db1 :: db where
  "db1 = \<lparr>users = [alice, bob, carol, dave],
          categories = [\<lparr>Category_id = 1, Category_name = ''Books''\<rparr>,
                        \<lparr>Category_id = 2, Category_name = ''Toys''\<rparr>],
          products = [atlas],
          carts = [\<lparr>Cart_id = 1, Cart_user_id = 1\<rparr>],
          cart_items = [\<lparr>CartItem_id = 1, CartItem_cart_id = 1, CartItem_product_id = 1,
                         CartItem_quantity = 1\<rparr>],
          orders = [], order_items = []\<rparr>"

definition check_hash :: "string \<Rightarrow> string \<Rightarrow> bool" where
  "check_hash p h = (h = ''h:'' @ p)"

lemmas ex_defs = db1_def alice_def bob_def carol_def dave_def atlas_def

section \<open>Auxiliary facts\<close>

lemma find_Some_if_ex: "\<exists>x\<in>set xs. P x \<Longrightarrow> find P xs \<noteq> None"
  by (auto simp: find_None_iff)

lemma find_append_None: "find P xs = None \<Longrightarrow> find P (xs @ ys) = find P ys"
  by (induction xs) (auto split: if_splits)

lemma fold_max_ge: "(a::int) \<le> fold max xs a \<and> (\<forall>x\<in>set xs. x \<le> fold max xs a)"
proof (induction xs arbitrary: a)
  case Nil
  show ?case by simp
next
  case (Cons y ys)
  from Cons [of "max y a"] show ?case by auto
qed

lemma next_id_fresh: "x \<in> set ids \<Longrightarrow> x < next_id ids"
  using fold_max_ge [of 0 ids] by (auto simp: next_id_def)

text \<open>The messages of the persistence layer, as the handlers classify them.\<close>

lemma msg_cart_not_found: "str_in ''not found'' (lower ''Cart not found'')"
  by code_simp

lemma msg_cart_empty:
  "\<not> str_in ''not found'' (lower ''Cart is empty'')" "str_in ''empty'' (lower ''Cart is empty'')"
  by code_simp+

lemma msg_insufficient:
  "\<not> str_in ''not found'' (lower ''Insufficient stock'')"
  "str_in ''insufficient'' (lower ''Insufficient stock'')"
  by code_simp+

section \<open>Signup and login\<close>

text \<open>
  C2: a signup request whose email is the email of an existing user row is rejected
  with the duplicate-email error of the handler (HTTP 400, "Email already registered"),
  and the store, so the user table, is left as it was: no second row is created.
\<close>

theorem signup_duplicate_email:
  assumes "\<exists>u\<in>set (users d). User_email u = UserCreate_email user"
  shows "signup hash_password d user = (d, Inl (HTTPException 400 ''Email already registered''))"
proof -
  have "crud_get_user_by_email d (UserCreate_email user) \<noteq> None"
    unfolding crud_get_user_by_email_def using assms by (intro find_Some_if_ex) simp
  then show ?thesis by (simp add: signup_def)
qed

theorem signup_duplicate_email_witness:
  "signup (\<lambda>p. ''h:'' @ p) db1 \<lparr>UserCreate_email = ''bob@example.org'', UserCreate_password = ''x''\<rparr>
     = (db1, Inl (HTTPException 400 ''Email already registered''))"
  by (rule signup_duplicate_email) (simp add: ex_defs)

text \<open>
  C3: a login attempt whose email belongs to no user row, or whose password the
  password check rejects against the stored one, ends with HTTP 401; the outcome is
  the same value, "Incorrect email or password", in both cases, and the store is
  untouched.
\<close>

theorem login_unauthorized:
  assumes "(\<forall>u\<in>set (users d). User_email u \<noteq> username form_data) \<or>
           (\<exists>u. crud_get_user_by_email d (username form_data) = Some u \<and>
                \<not> verify_password (password form_data) (User_password u))"
  shows "login verify_password now d form_data =
           (d, Inl (HTTPException 401 ''Incorrect email or password''))"
  using assms
proof
  assume "\<forall>u\<in>set (users d). User_email u \<noteq> username form_data"
  then have "crud_get_user_by_email d (username form_data) = None"
    by (auto simp: crud_get_user_by_email_def find_None_iff)
  then show ?thesis by (simp add: login_def)
next
  assume "\<exists>u. crud_get_user_by_email d (username form_data) = Some u \<and>
                \<not> verify_password (password form_data) (User_password u)"
  then show ?thesis by (auto simp: login_def)
qed

theorem login_unauthorized_witness:
  "login check_hash 1000 db1 \<lparr>username = ''nobody@example.org'', password = ''wonder''\<rparr>
     = (db1, Inl (HTTPException 401 ''Incorrect email or password'')) \<and>
   login check_hash 1000 db1 \<lparr>username = ''alice@example.org'', password = ''guess''\<rparr>
     = (db1, Inl (HTTPException 401 ''Incorrect email or password''))"
proof
  show "login check_hash 1000 db1 \<lparr>username = ''nobody@example.org'', password = ''wonder''\<rparr>
     = (db1, Inl (HTTPException 401 ''Incorrect email or password''))"
    by (rule login_unauthorized) (simp add: ex_defs)
  have "crud_get_user_by_email db1 ''alice@example.org'' = Some alice"
    by (simp add: crud_get_user_by_email_def ex_defs)
  then show "login check_hash 1000 db1 \<lparr>username = ''alice@example.org'', password = ''guess''\<rparr>
     = (db1, Inl (HTTPException 401 ''Incorrect email or password''))"
    by (intro login_unauthorized) (simp add: check_hash_def alice_def)
qed

text \<open>
  C8: a successful login answers with a bearer token whose payload has the keys
  \<^verbatim>\<open>user_id\<close>, \<^verbatim>\<open>email\<close>, \<^verbatim>\<open>role\<close> and \<^verbatim>\<open>exp\<close> and no other: the id, email and role of
  the user row, and an expiry 60 minutes (3600 seconds) after the time of issue.
\<close>

theorem login_token:
  assumes "crud_get_user_by_email d (username form_data) = Some u"
      and "verify_password (password form_data) (User_password u)"
  shows "\<exists>tok. login verify_password now d form_data
                 = (d, Inr \<lparr>access_token = tok, token_type = ''bearer''\<rparr>) \<and>
               dom tok = {''user_id'', ''email'', ''role'', ''exp''} \<and>
               tok ''user_id'' = Some (JInt (User_id u)) \<and>
               tok ''email'' = Some (JStr (User_email u)) \<and>
               tok ''role'' = Some (JStr (User_role u)) \<and>
               tok ''exp'' = Some (JInt (now + 60 * 60))"
  using assms
  by (auto simp: login_def create_access_token_def timedelta_minutes_def)

theorem login_token_witness:
  "\<exists>tok. login check_hash 1000 db1 \<lparr>username = ''alice@example.org'', password = ''wonder''\<rparr>
            = (db1, Inr \<lparr>access_token = tok, token_type = ''bearer''\<rparr>) \<and>
          dom tok = {''user_id'', ''email'', ''role'', ''exp''} \<and>
          tok ''user_id'' = Some (JInt 1) \<and>
          tok ''email'' = Some (JStr ''alice@example.org'') \<and>
          tok ''role'' = Some (JStr ''customer'') \<and>
          tok ''exp'' = Some (JInt 4600)"
proof -
  have a: "crud_get_user_by_email db1 (username \<lparr>username = ''alice@example.org'', password = ''wonder''\<rparr>) = Some alice"
    by (simp add: crud_get_user_by_email_def ex_defs)
  have b: "check_hash (password \<lparr>username = ''alice@example.org'', password = ''wonder''\<rparr>) (User_password alice)"
    by (simp add: check_hash_def alice_def)
  show ?thesis
    using login_token [where verify_password = check_hash and now = 1000, OF a b]
    by (simp add: alice_def)
qed

section \<open>Catalog\<close>

text \<open>
  C10: listing the products of a category ends with HTTP 404 exactly when no product
  row carries the category id, whether or not a category with that id exists; an
  empty list is never the answer.
\<close>

theorem list_products_by_category_empty:
  "(list_products_by_category d category_id
      = (d, Inl (HTTPException 404 ''No products found for this category'')))
     = (\<forall>p\<in>set (products d). Product_category_id p \<noteq> category_id)
   \<and> (\<forall>d' ps. list_products_by_category d category_id = (d', Inr ps) \<longrightarrow> ps \<noteq> [])"
  by (auto simp: list_products_by_category_def crud_get_products_by_category_def Let_def
        filter_empty_conv)

theorem list_products_by_category_empty_witness:
  "list_products_by_category db1 2 = (db1, Inl (HTTPException 404 ''No products found for this category''))
   \<and> 2 \<in> Category_id ` set (categories db1)
   \<and> list_products_by_category db1 9 = (db1, Inl (HTTPException 404 ''No products found for this category''))
   \<and> 9 \<notin> Category_id ` set (categories db1)
   \<and> list_products_by_category db1 1 = (db1, Inr [atlas])"
proof -
  have "list_products_by_category db1 2 = (db1, Inl (HTTPException 404 ''No products found for this category''))"
    using list_products_by_category_empty [of db1 2] by (simp add: ex_defs)
  moreover have "list_products_by_category db1 9 = (db1, Inl (HTTPException 404 ''No products found for this category''))"
    using list_products_by_category_empty [of db1 9] by (simp add: ex_defs)
  moreover have "list_products_by_category db1 1 = (db1, Inr [atlas])"
    by (simp add: list_products_by_category_def crud_get_products_by_category_def Let_def ex_defs)
  ultimately show ?thesis by (simp add: ex_defs)
qed

section \<open>Role change by an admin\<close>

lemma apply_update_id: "User_id (apply_update update u) = User_id u"
  by (simp add: apply_update_def split: option.splits)

lemma find_apply_update:
  "find (\<lambda>u. User_id u = k) xs = Some u \<Longrightarrow>
   find (\<lambda>u. User_id u = k) (map (\<lambda>x. if User_id x = k then apply_update update x else x) xs)
     = Some (apply_update update u)"
  by (induction xs) (auto simp: apply_update_id split: if_splits)

lemma role_check:
  "(UserUpdate_role update \<notin> set [Some ''customer'', Some ''seller'', Some ''admin''])
     = (\<forall>r\<in>roles. UserUpdate_role update \<noteq> Some r)"
  by (auto simp: roles_def)

text \<open>
  C9: for a role change on an existing user, the answer is HTTP 400 "Invalid role"
  exactly when the requested role is none of customer, seller, admin. Otherwise the
  updated user is returned and the user row now carries the requested role. If every
  role of the user table was one of the three before the request, it is so afterwards.
\<close>

theorem admin_update_user_role_checked:
  assumes "crud_get_user d user_id = Some u"
  shows "(snd (admin_update_user_role d user_id update admin) = Inl (HTTPException 400 ''Invalid role''))
           = (\<forall>r\<in>roles. UserUpdate_role update \<noteq> Some r)
       \<and> (\<forall>r\<in>roles. UserUpdate_role update = Some r \<longrightarrow>
            snd (admin_update_user_role d user_id update admin) = Inr (u\<lparr>User_role := r\<rparr>) \<and>
            crud_get_user (fst (admin_update_user_role d user_id update admin)) user_id
              = Some (u\<lparr>User_role := r\<rparr>))
       \<and> ((\<forall>x\<in>set (users d). User_role x \<in> roles) \<longrightarrow>
            (\<forall>x\<in>set (users (fst (admin_update_user_role d user_id update admin))).
               User_role x \<in> roles))"
proof (intro conjI)
  have uid: "User_id u = user_id"
    using assms by (auto simp: crud_get_user_def find_Some_iff)
  show "(snd (admin_update_user_role d user_id update admin) = Inl (HTTPException 400 ''Invalid role''))
           = (\<forall>r\<in>roles. UserUpdate_role update \<noteq> Some r)"
    using assms role_check [of update]
    by (auto simp: admin_update_user_role_def crud_update_user_def split: prod.splits)
  show "\<forall>r\<in>roles. UserUpdate_role update = Some r \<longrightarrow>
            snd (admin_update_user_role d user_id update admin) = Inr (u\<lparr>User_role := r\<rparr>) \<and>
            crud_get_user (fst (admin_update_user_role d user_id update admin)) user_id
              = Some (u\<lparr>User_role := r\<rparr>)"
  proof (intro ballI impI)
    fix r assume r: "r \<in> roles" "UserUpdate_role update = Some r"
    then have ok: "\<not> UserUpdate_role update \<notin> set [Some ''customer'', Some ''seller'', Some ''admin'']"
      by (auto simp: roles_def)
    have "find (\<lambda>x. User_id x = user_id) (users d) = Some u"
      using assms by (simp add: crud_get_user_def)
    from find_apply_update [OF this, of update] ok r(2) uid assms
    show "snd (admin_update_user_role d user_id update admin) = Inr (u\<lparr>User_role := r\<rparr>) \<and>
            crud_get_user (fst (admin_update_user_role d user_id update admin)) user_id
              = Some (u\<lparr>User_role := r\<rparr>)"
      by (simp add: admin_update_user_role_def crud_update_user_def apply_update_def
            crud_get_user_def)
  qed
  show "(\<forall>x\<in>set (users d). User_role x \<in> roles) \<longrightarrow>
            (\<forall>x\<in>set (users (fst (admin_update_user_role d user_id update admin))).
               User_role x \<in> roles)"
    using assms
    by (auto simp: admin_update_user_role_def crud_update_user_def apply_update_def roles_def
          split: option.splits if_splits)
qed

theorem admin_update_user_role_checked_witness:
  "snd (admin_update_user_role db1 2 \<lparr>UserUpdate_role = Some ''root''\<rparr> dave)
     = Inl (HTTPException 400 ''Invalid role'') \<and>
   snd (admin_update_user_role db1 2 \<lparr>UserUpdate_role = Some ''seller''\<rparr> dave)
     = Inr (bob\<lparr>User_role := ''seller''\<rparr>) \<and>
   crud_get_user (fst (admin_update_user_role db1 2 \<lparr>UserUpdate_role = Some ''seller''\<rparr> dave)) 2
     = Some (bob\<lparr>User_role := ''seller''\<rparr>) \<and>
   list_all (\<lambda>x. User_role x \<in> roles)
     (users (fst (admin_update_user_role db1 2 \<lparr>UserUpdate_role = Some ''seller''\<rparr> dave)))"
proof -
  have a: "crud_get_user db1 2 = Some bob"
    by (simp add: crud_get_user_def ex_defs)
  have b: "\<forall>x\<in>set (users db1). User_role x \<in> roles"
    by (simp add: roles_def ex_defs)
  have c: "''seller'' \<in> roles" "\<forall>r\<in>roles. Some ''root'' \<noteq> Some r"
    by (simp_all add: roles_def)
  from admin_update_user_role_checked [OF a, of "\<lparr>UserUpdate_role = Some ''root''\<rparr>" dave] c
  have 1: "snd (admin_update_user_role db1 2 \<lparr>UserUpdate_role = Some ''root''\<rparr> dave)
     = Inl (HTTPException 400 ''Invalid role'')"
    by simp
  from admin_update_user_role_checked [OF a, of "\<lparr>UserUpdate_role = Some ''seller''\<rparr>" dave] b c(1)
  have 2: "snd (admin_update_user_role db1 2 \<lparr>UserUpdate_role = Some ''seller''\<rparr> dave)
     = Inr (bob\<lparr>User_role := ''seller''\<rparr>) \<and>
   crud_get_user (fst (admin_update_user_role db1 2 \<lparr>UserUpdate_role = Some ''seller''\<rparr> dave)) 2
     = Some (bob\<lparr>User_role := ''seller''\<rparr>) \<and>
   list_all (\<lambda>x. User_role x \<in> roles)
     (users (fst (admin_update_user_role db1 2 \<lparr>UserUpdate_role = Some ''seller''\<rparr> dave)))"
    by (simp add: list_all_iff)
  from 1 2 show ?thesis by simp
qed

section \<open>The cart\<close>

lemma get_cart_existing:
  assumes "crud_get_cart d (User_id u) = Some c"
  shows "get_cart d u = (d, Inr c)" and "Cart_user_id c = User_id u"
    and "1 \<le> length (filter (\<lambda>x. Cart_user_id x = User_id u) (carts d))"
proof -
  show "get_cart d u = (d, Inr c)" using assms by (simp add: get_cart_def)
  from assms have c: "c \<in> set (carts d)" "Cart_user_id c = User_id u"
    by (auto simp: crud_get_cart_def find_Some_iff)
  then show "Cart_user_id c = User_id u" by simp
  from c have "filter (\<lambda>x. Cart_user_id x = User_id u) (carts d) \<noteq> []"
    by (auto simp: filter_empty_conv)
  then show "1 \<le> length (filter (\<lambda>x. Cart_user_id x = User_id u) (carts d))"
    by (cases "filter (\<lambda>x. Cart_user_id x = User_id u) (carts d)") simp_all
qed

lemma get_cart_created:
  assumes "crud_get_cart d (User_id u) = None"
  defines "c \<equiv> \<lparr>Cart_id = next_id (map Cart_id (carts d)), Cart_user_id = User_id u\<rparr>"
  shows "get_cart d u = (d\<lparr>carts := carts d @ [c]\<rparr>, Inr c)"
    and "crud_get_cart (d\<lparr>carts := carts d @ [c]\<rparr>) (User_id u) = Some c"
    and "filter (\<lambda>x. Cart_user_id x = User_id u) (carts d) = []"
    and "Cart_id c \<notin> Cart_id ` set (carts d)"
proof -
  show "get_cart d u = (d\<lparr>carts := carts d @ [c]\<rparr>, Inr c)"
    using assms by (simp add: get_cart_def crud_create_cart_def Let_def)
  from assms(1) have n: "find (\<lambda>x. Cart_user_id x = User_id u) (carts d) = None"
    by (simp add: crud_get_cart_def)
  from find_append_None [OF n, of "[c]"]
  show "crud_get_cart (d\<lparr>carts := carts d @ [c]\<rparr>) (User_id u) = Some c"
    by (simp add: crud_get_cart_def c_def)
  from n show "filter (\<lambda>x. Cart_user_id x = User_id u) (carts d) = []"
    by (auto simp: find_None_iff filter_empty_conv)
  show "Cart_id c \<notin> Cart_id ` set (carts d)"
  proof
    assume "Cart_id c \<in> Cart_id ` set (carts d)"
    then have "Cart_id c \<in> set (map Cart_id (carts d))" by simp
    from next_id_fresh [OF this] show False by (simp add: c_def)
  qed
qed

text \<open>
  C7: \<^verbatim>\<open>get_cart\<close> always answers with a cart of the requester, the one a lookup finds
  afterwards. A second call on the resulting store answers with the same cart and
  changes nothing. The number of carts of the user afterwards is the number before, or
  one if there was none: an existing cart is returned with the store unchanged, and a
  missing one is created as one new row with a fresh key, which has no items when every
  cart item belongs to an existing cart.
\<close>

theorem get_cart_idempotent:
  "\<exists>d' c. get_cart d u = (d', Inr c) \<and> Cart_user_id c = User_id u \<and>
      crud_get_cart d' (User_id u) = Some c \<and>
      get_cart d' u = (d', Inr c) \<and>
      length (filter (\<lambda>x. Cart_user_id x = User_id u) (carts d'))
        = max 1 (length (filter (\<lambda>x. Cart_user_id x = User_id u) (carts d))) \<and>
      (crud_get_cart d (User_id u) \<noteq> None \<longrightarrow> d' = d \<and> crud_get_cart d (User_id u) = Some c) \<and>
      (crud_get_cart d (User_id u) = None \<longrightarrow>
         d' = d\<lparr>carts := carts d @ [c]\<rparr> \<and> Cart_id c \<notin> Cart_id ` set (carts d) \<and>
         ((\<forall>i\<in>set (cart_items d). CartItem_cart_id i \<in> Cart_id ` set (carts d)) \<longrightarrow>
            items_of d' (Cart_id c) = []))"
proof (cases "crud_get_cart d (User_id u)")
  case (Some c)
  from get_cart_existing [OF Some] Some show ?thesis
    by (intro exI [of _ d] exI [of _ c]) (simp add: max_def)
next
  case None
  define c where "c = \<lparr>Cart_id = next_id (map Cart_id (carts d)), Cart_user_id = User_id u\<rparr>"
  define d' where "d' = d\<lparr>carts := carts d @ [c]\<rparr>"
  note cr = get_cart_created [OF None, folded c_def, folded d'_def]
  have again: "get_cart d' u = (d', Inr c)"
    using cr(2) by (simp add: get_cart_def)
  have count: "length (filter (\<lambda>x. Cart_user_id x = User_id u) (carts d')) = 1"
    using cr(3) by (simp add: d'_def c_def)
  have empty: "items_of d' (Cart_id c) = []"
    if "\<forall>i\<in>set (cart_items d). CartItem_cart_id i \<in> Cart_id ` set (carts d)"
    using that cr(4) by (simp add: items_of_def d'_def filter_empty_conv) metis
  show ?thesis
    using cr again count empty None
    by (intro exI [of _ d'] exI [of _ c]) (simp add: c_def d'_def)
qed

theorem get_cart_idempotent_witness:
  "get_cart db1 bob = (db1\<lparr>carts := carts db1 @ [\<lparr>Cart_id = 2, Cart_user_id = 2\<rparr>]\<rparr>,
                       Inr \<lparr>Cart_id = 2, Cart_user_id = 2\<rparr>) \<and>
   get_cart (fst (get_cart db1 bob)) bob = get_cart db1 bob \<and>
   length (filter (\<lambda>x. Cart_user_id x = User_id bob) (carts (fst (get_cart db1 bob)))) = 1 \<and>
   items_of (fst (get_cart db1 bob)) 2 = [] \<and>
   get_cart db1 alice = (db1, Inr \<lparr>Cart_id = 1, Cart_user_id = 1\<rparr>) \<and>
   get_cart (fst (get_cart db1 alice)) alice = get_cart db1 alice"
proof -
  have nb: "crud_get_cart db1 (User_id bob) = None"
    by (simp add: crud_get_cart_def ex_defs)
  have fk: "\<forall>i\<in>set (cart_items db1). CartItem_cart_id i \<in> Cart_id ` set (carts db1)"
    by (simp add: ex_defs)
  have cnt: "length (filter (\<lambda>x. Cart_user_id x = User_id bob) (carts db1)) = 0"
    by (simp add: ex_defs)
  have eb: "get_cart db1 bob = (db1\<lparr>carts := carts db1 @ [\<lparr>Cart_id = 2, Cart_user_id = 2\<rparr>]\<rparr>,
                       Inr \<lparr>Cart_id = 2, Cart_user_id = 2\<rparr>)"
    by (simp add: get_cart_def crud_get_cart_def crud_create_cart_def next_id_def Let_def ex_defs)
  obtain d' c where b: "get_cart db1 bob = (d', Inr c)" "get_cart d' bob = (d', Inr c)"
      "length (filter (\<lambda>x. Cart_user_id x = User_id bob) (carts d'))
        = max 1 (length (filter (\<lambda>x. Cart_user_id x = User_id bob) (carts db1)))"
      "items_of d' (Cart_id c) = []"
    using get_cart_idempotent [of db1 bob] nb fk by auto
  have na: "crud_get_cart db1 (User_id alice) \<noteq> None"
    by (simp add: crud_get_cart_def ex_defs)
  obtain d'' c' where a: "get_cart db1 alice = (d'', Inr c')" "get_cart d'' alice = (d'', Inr c')"
      "d'' = db1" "crud_get_cart db1 (User_id alice) = Some c'"
    using get_cart_idempotent [of db1 alice] na by auto
  have ca: "c' = \<lparr>Cart_id = 1, Cart_user_id = 1\<rparr>"
    using a(4) by (simp add: crud_get_cart_def ex_defs)
  from b eb have cb: "c = \<lparr>Cart_id = 2, Cart_user_id = 2\<rparr>" by simp
  show ?thesis
    using a(1,2,3) b eb cnt ca cb by simp
qed

lemma get_product_after_create_cart:
  "crud_get_product (fst (crud_create_cart d uid)) pid = crud_get_product d pid"
  by (simp add: crud_create_cart_def crud_get_product_def Let_def)

lemma crud_add_cart_item_insufficient:
  assumes "crud_get_product d (CartItemBase_product_id item) = Some p"
      and "0 \<le> Product_stock p" and "Product_stock p < CartItemBase_quantity item"
  shows "crud_add_cart_item d cart_id item = (d, Inl (ValueError ''Insufficient stock''))"
  using assms by (simp add: crud_add_cart_item_def Let_def)

text \<open>
  C5: adding an item whose quantity exceeds the stock of its product (a count, so not
  negative) ends with HTTP 400 "Insufficient stock", and the table of cart items is
  left as it was: no row is added and no quantity changes. When the requester already
  has a cart the whole store is unchanged.
\<close>

theorem add_item_insufficient_stock:
  assumes "crud_get_product d (CartItemBase_product_id item) = Some p"
      and "0 \<le> Product_stock p"
      and "Product_stock p < CartItemBase_quantity item"
  shows "snd (add_item_to_cart d item current_user) = Inl (HTTPException 400 ''Insufficient stock'')
       \<and> cart_items (fst (add_item_to_cart d item current_user)) = cart_items d
       \<and> (crud_get_cart d (User_id current_user) \<noteq> None \<longrightarrow>
            fst (add_item_to_cart d item current_user) = d)"
proof (cases "crud_get_cart d (User_id current_user)")
  case (Some cart)
  from crud_add_cart_item_insufficient [OF assms, of "Cart_id cart"] Some
  show ?thesis
    by (simp add: add_item_to_cart_def msg_insufficient)
next
  case None
  obtain d1 cart where c: "crud_create_cart d (User_id current_user) = (d1, cart)"
    by (cases "crud_create_cart d (User_id current_user)")
  then have d1: "cart_items d1 = cart_items d" "crud_get_product d1 (CartItemBase_product_id item) = Some p"
    using assms(1) by (auto simp: crud_create_cart_def crud_get_product_def Let_def)
  from crud_add_cart_item_insufficient [OF d1(2) assms(2,3), of "Cart_id cart"] None c d1(1)
  show ?thesis
    by (simp add: add_item_to_cart_def msg_insufficient)
qed

theorem add_item_insufficient_stock_witness:
  "add_item_to_cart db1 \<lparr>CartItemBase_product_id = 1, CartItemBase_quantity = 10\<rparr> alice
     = (db1, Inl (HTTPException 400 ''Insufficient stock'')) \<and>
   snd (add_item_to_cart db1 \<lparr>CartItemBase_product_id = 1, CartItemBase_quantity = 6\<rparr> bob)
     = Inl (HTTPException 400 ''Insufficient stock'') \<and>
   cart_items (fst (add_item_to_cart db1 \<lparr>CartItemBase_product_id = 1, CartItemBase_quantity = 6\<rparr> bob))
     = cart_items db1"
proof -
  have p: "crud_get_product db1 (CartItemBase_product_id \<lparr>CartItemBase_product_id = 1, CartItemBase_quantity = q\<rparr>) = Some atlas" for q
    by (simp add: crud_get_product_def ex_defs)
  have s: "0 \<le> Product_stock atlas"
      "Product_stock atlas < CartItemBase_quantity \<lparr>CartItemBase_product_id = 1, CartItemBase_quantity = 10\<rparr>"
      "Product_stock atlas < CartItemBase_quantity \<lparr>CartItemBase_product_id = 1, CartItemBase_quantity = 6\<rparr>"
    by (simp_all add: atlas_def)
  have c: "crud_get_cart db1 (User_id alice) \<noteq> None"
    by (simp add: crud_get_cart_def ex_defs)
  from add_item_insufficient_stock [OF p s(1) s(2), of alice] c
  have 1: "add_item_to_cart db1 \<lparr>CartItemBase_product_id = 1, CartItemBase_quantity = 10\<rparr> alice
     = (db1, Inl (HTTPException 400 ''Insufficient stock''))"
    by (simp add: prod_eq_iff)
  from add_item_insufficient_stock [OF p s(1) s(3), of bob] 1
  show ?thesis by simp
qed

section \<open>Ownership of cart items\<close>

text \<open>
  Deleting an item of another user's cart: the owner is compared first, the answer is
  HTTP 403 and the store is unchanged.
\<close>

lemma delete_cart_item_not_owner:
  assumes "find (\<lambda>i. CartItem_id i = cart_item_id) (cart_items d) = Some item"
      and "find (\<lambda>c. Cart_id c = CartItem_cart_id item) (carts d) = Some cart"
      and "Cart_user_id cart \<noteq> User_id current_user" and "User_role current_user \<noteq> ''admin''"
  shows "delete_cart_item d cart_item_id current_user
           = (d, Inl (HTTPException 403 ''Not allowed to delete this item''))"
  using assms by (simp add: delete_cart_item_def)

text \<open>
  Updating an item of another user's cart: the answer is HTTP 403 as well, but the
  persistence layer has already written the new quantity.
\<close>

lemma update_cart_item_not_owner:
  assumes "find (\<lambda>i. CartItem_id i = cart_item_id) (cart_items d) = Some item"
      and "crud_get_product d (CartItem_product_id item) = Some p"
      and "quantity \<le> Product_stock p"
      and "find (\<lambda>c. Cart_id c = CartItem_cart_id item) (carts d) = Some cart"
      and "Cart_user_id cart \<noteq> User_id current_user" and "User_role current_user \<noteq> ''admin''"
  shows "update_cart_item d cart_item_id quantity current_user
           = (d\<lparr>cart_items := set_quantity cart_item_id quantity (cart_items d)\<rparr>,
              Inl (HTTPException 403 ''Not allowed to modify this item''))"
  using assms by (simp add: update_cart_item_def crud_update_cart_item_def)

text \<open>
  C1: a requester who is neither the owner of a cart item nor an admin must not be
  able to change the item. In the example store the first customer's cart holds item 1
  with quantity 1; the second customer, not an admin, asks for quantity 3. The answer
  is HTTP 403, and the item's quantity in the store left behind is 3.
\<close>

theorem update_cart_item_writes_before_owner_check:
  "update_cart_item db1 1 3 bob =
     (db1\<lparr>cart_items := [\<lparr>CartItem_id = 1, CartItem_cart_id = 1, CartItem_product_id = 1,
                           CartItem_quantity = 3\<rparr>]\<rparr>,
      Inl (HTTPException 403 ''Not allowed to modify this item''))
   \<and> cart_items db1 = [\<lparr>CartItem_id = 1, CartItem_cart_id = 1, CartItem_product_id = 1,
                           CartItem_quantity = 1\<rparr>]
   \<and> crud_get_cart db1 (User_id alice) = Some \<lparr>Cart_id = 1, Cart_user_id = 1\<rparr>
   \<and> User_id bob \<noteq> User_id alice \<and> User_role bob \<noteq> ''admin''"
  by (simp add: update_cart_item_def crud_update_cart_item_def crud_get_product_def
        crud_get_cart_def set_quantity_def ex_defs)

section \<open>Orders\<close>

text \<open>
  C4: creating an order for a user without a cart ends with HTTP 404 "Cart not found";
  for a user whose cart has no items it ends with HTTP 400 "Cart is empty". In both
  cases the store is returned as it was: no order, no change of stock, the cart
  untouched.
\<close>

theorem create_order_no_cart_or_empty:
  "(crud_get_cart d (User_id current_user) = None \<longrightarrow>
      create_order_from_cart d current_user = (d, Inl (HTTPException 404 ''Cart not found'')))
   \<and> (\<forall>cart. crud_get_cart d (User_id current_user) = Some cart \<and> items_of d (Cart_id cart) = []
        \<longrightarrow> create_order_from_cart d current_user = (d, Inl (HTTPException 400 ''Cart is empty'')))"
  by (simp add: create_order_from_cart_def crud_create_order_from_cart_for_user_def
        msg_cart_not_found msg_cart_empty)

theorem create_order_no_cart_or_empty_witness:
  "create_order_from_cart db1 bob = (db1, Inl (HTTPException 404 ''Cart not found'')) \<and>
   create_order_from_cart (db1\<lparr>cart_items := []\<rparr>) alice
     = (db1\<lparr>cart_items := []\<rparr>, Inl (HTTPException 400 ''Cart is empty''))"
proof -
  have 1: "crud_get_cart db1 (User_id bob) = None"
    by (simp add: crud_get_cart_def ex_defs)
  have 2: "crud_get_cart (db1\<lparr>cart_items := []\<rparr>) (User_id alice) = Some \<lparr>Cart_id = 1, Cart_user_id = 1\<rparr>"
      "items_of (db1\<lparr>cart_items := []\<rparr>) (Cart_id \<lparr>Cart_id = 1, Cart_user_id = 1\<rparr>) = []"
    by (simp_all add: crud_get_cart_def items_of_def ex_defs)
  from create_order_no_cart_or_empty [of db1 bob] 1
    create_order_no_cart_or_empty [of "db1\<lparr>cart_items := []\<rparr>" alice] 2
  show ?thesis by blast
qed

section \<open>Products of a seller\<close>

text \<open>
  C6: for a requester with the role seller, updating and deleting a product both end
  with the one outcome HTTP 404 "Product not found or not authorized", the store
  unchanged, when the product does not exist or is not the requester's. For a
  requester with the role admin both succeed on any existing product, whoever owns it.
\<close>

theorem seller_product_collapsed_not_found:
  "(User_role seller = ''seller'' \<and>
      (crud_get_product d product_id = None \<or>
       (\<exists>p. crud_get_product d product_id = Some p \<and> Product_seller_id p \<noteq> Some (User_id seller)))
    \<longrightarrow> seller_update_product d product_id product_update seller
            = (d, Inl (HTTPException 404 ''Product not found or not authorized'')) \<and>
          seller_delete_product d product_id seller
            = (d, Inl (HTTPException 404 ''Product not found or not authorized'')))
   \<and> (User_role seller = ''admin'' \<and> crud_get_product d product_id = Some p
    \<longrightarrow> snd (seller_update_product d product_id product_update seller)
            = Inr (apply_product_update product_update p) \<and>
          snd (seller_delete_product d product_id seller) = Inr ''Product deleted successfully'')"
  by (auto simp: seller_update_product_def seller_delete_product_def crud_update_product_def
        crud_delete_product_def)

theorem seller_product_collapsed_not_found_witness:
  "seller_update_product db1 9 \<lparr>ProductBase_name = ''Globe'', ProductBase_price = 900,
       ProductBase_stock = 2, ProductBase_category_id = 1\<rparr> carol
     = (db1, Inl (HTTPException 404 ''Product not found or not authorized'')) \<and>
   seller_delete_product db1 9 carol
     = (db1, Inl (HTTPException 404 ''Product not found or not authorized'')) \<and>
   seller_update_product db1 1 \<lparr>ProductBase_name = ''Globe'', ProductBase_price = 900,
       ProductBase_stock = 2, ProductBase_category_id = 1\<rparr> (carol\<lparr>User_id := 5\<rparr>)
     = (db1, Inl (HTTPException 404 ''Product not found or not authorized'')) \<and>
   seller_delete_product db1 1 (carol\<lparr>User_id := 5\<rparr>)
     = (db1, Inl (HTTPException 404 ''Product not found or not authorized'')) \<and>
   snd (seller_update_product db1 1 \<lparr>ProductBase_name = ''Globe'', ProductBase_price = 900,
       ProductBase_stock = 2, ProductBase_category_id = 1\<rparr> dave)
     = Inr \<lparr>Product_id = 1, Product_name = ''Globe'', Product_price = 900, Product_stock = 2,
            Product_category_id = 1, Product_seller_id = Some 3\<rparr> \<and>
   snd (seller_delete_product db1 1 dave) = Inr ''Product deleted successfully''"
proof -
  let ?upd = "\<lparr>ProductBase_name = ''Globe'', ProductBase_price = 900,
       ProductBase_stock = 2, ProductBase_category_id = 1\<rparr>"
  have n: "crud_get_product db1 9 = None" and s: "crud_get_product db1 1 = Some atlas"
    by (simp_all add: crud_get_product_def ex_defs)
  have r: "User_role carol = ''seller''" "User_role (carol\<lparr>User_id := 5\<rparr>) = ''seller''"
      "User_role dave = ''admin''"
      "Product_seller_id atlas \<noteq> Some (User_id (carol\<lparr>User_id := 5\<rparr>))"
    by (simp_all add: ex_defs)
  from seller_product_collapsed_not_found [of carol db1 9 ?upd] n r(1)
  have 1: "seller_update_product db1 9 ?upd carol
     = (db1, Inl (HTTPException 404 ''Product not found or not authorized'')) \<and>
   seller_delete_product db1 9 carol
     = (db1, Inl (HTTPException 404 ''Product not found or not authorized''))"
    by simp
  from seller_product_collapsed_not_found [of "carol\<lparr>User_id := 5\<rparr>" db1 1 ?upd] s r(2,4)
  have 2: "seller_update_product db1 1 ?upd (carol\<lparr>User_id := 5\<rparr>)
     = (db1, Inl (HTTPException 404 ''Product not found or not authorized'')) \<and>
   seller_delete_product db1 1 (carol\<lparr>User_id := 5\<rparr>)
     = (db1, Inl (HTTPException 404 ''Product not found or not authorized''))"
    by simp
  from seller_product_collapsed_not_found [of dave db1 1 ?upd atlas] s r(3)
  have 3: "snd (seller_update_product db1 1 ?upd dave) = Inr (apply_product_update ?upd atlas) \<and>
   snd (seller_delete_product db1 1 dave) = Inr ''Product deleted successfully''"
    by simp
  have 4: "apply_product_update ?upd atlas = \<lparr>Product_id = 1, Product_name = ''Globe'', Product_price = 900, Product_stock = 2,
            Product_category_id = 1, Product_seller_id = Some 3\<rparr>"
    by (simp add: apply_product_update_def atlas_def)
  from 1 2 3 4 show ?thesis by simp
qed

end
